theory Spec2Isabelle
  imports Complex_Main
begin

section \<open>The linear-regression guide algorithm of PHD2\<close>

text \<open>
  A shallow embedding of \<^verbatim>\<open>src/guide_algorithm_linear_regression.cpp\<close>.

  Conventions of the embedding.
  \<^item> A C++ \<^verbatim>\<open>double\<close> is a \<^typ>\<open>real\<close>: finite values with exact arithmetic. Rounding,
    infinities and NaN are not modelled.
  \<^item> A C++ \<^verbatim>\<open>int\<close> is an \<^typ>\<open>int\<close>; the only arithmetic done on one is the division
    of the exposure time by 1000.
  \<^item> A \<^verbatim>\<open>size_t\<close> is a \<^typ>\<open>nat\<close> below \<open>2 ^ 64\<close>, with the wrap-around of the subtraction
    written out.
  \<^item> The object behind the pointer \<^verbatim>\<open>parameters\<close> is a record that every member function
    takes and returns.
  \<^item> An access to the history outside its current size is undefined behaviour in C++; here
    it is the error value \<open>OutOfRange i\<close>, where \<open>i\<close> is the offending index, and a function
    that performs such an access returns \<open>Inl\<close> of it.
  \<^item> The stop watch \<^verbatim>\<open>wxStopWatch\<close> is the wall-clock instant (in milliseconds) at which
    it was last started; the wall clock itself is an argument \<open>now\<close> of the functions that
    read it.
\<close>

subsection \<open>Samples\<close>

record lr_guiding_circular_datapoints =
  timestamp :: real
  measurement :: real
  modified_measurement :: real
  control :: real

text \<open>The value-initialised sample \<^verbatim>\<open>data_points()\<close>: every field is zero.\<close>

definition data_points :: lr_guiding_circular_datapoints where
  "data_points =
     \<lparr>timestamp = 0, measurement = 0, modified_measurement = 0, control = 0\<rparr>"

subsection \<open>The bounded history\<close>

datatype error = OutOfRange nat

text \<open>
  Modelled from the spec: the class template \<^verbatim>\<open>circular_buffer\<close>, which the source uses
  (\<^verbatim>\<open>circular_buffer<data_points>\<close>, constructed with capacity 200, with \<^verbatim>\<open>push_front\<close>,
  \<^verbatim>\<open>operator[]\<close>, \<^verbatim>\<open>size\<close> and \<^verbatim>\<open>clear\<close>) and which is declared in a header that is not
  part of the sources. The spec describes it as "a fixed-capacity (200 samples) ordered
  buffer of Sample, insertion-ordered, oldest evicted first once full (FIFO ring)", whose
  "length never exceeds capacity" and where "index 0 always denotes the most recently
  inserted sample (front access)".

  The buffer is its capacity and the list of its elements in index order: \<open>cb_items b ! i\<close>
  is element \<open>i\<close>.
\<close>

record 'a circular_buffer =
  cb_capacity :: nat
  cb_items :: "'a list"

text \<open>
  Modelled from the spec: the constructor \<^verbatim>\<open>circular_buffer(n)\<close>, an empty buffer of fixed
  capacity \<open>n\<close>.
\<close>

definition circular_buffer_new :: "nat \<Rightarrow> 'a circular_buffer" where
  "circular_buffer_new n = \<lparr>cb_capacity = n, cb_items = []\<rparr>"

text \<open>Modelled from the spec: \<^verbatim>\<open>size()\<close>, the current length of the buffer.\<close>

definition cb_size :: "'a circular_buffer \<Rightarrow> nat" where
  "cb_size b = length (cb_items b)"

text \<open>Modelled from the spec: \<^verbatim>\<open>clear()\<close>, which empties the buffer ("clears the history").\<close>

definition cb_clear :: "'a circular_buffer \<Rightarrow> 'a circular_buffer" where
  "cb_clear b = b\<lparr>cb_items := []\<rparr>"

text \<open>
  Modelled from the spec: \<^verbatim>\<open>push_front\<close>. The new element becomes index 0 ("front
  access"), and the buffer is cut at its capacity, which drops the element that was
  inserted first ("oldest evicted first once full").
\<close>

definition push_front :: "'a \<Rightarrow> 'a circular_buffer \<Rightarrow> 'a circular_buffer" where
  "push_front x b = b\<lparr>cb_items := take (cb_capacity b) (x # cb_items b)\<rparr>"

text \<open>
  Modelled from the spec: \<^verbatim>\<open>operator[]\<close>, for reading \<^verbatim>\<open>b[i]\<close>. The elements of the buffer
  are those at the indices below its current length; an index outside is an error.
\<close>

definition cb_at :: "'a circular_buffer \<Rightarrow> nat \<Rightarrow> error + 'a" where
  "cb_at b i = (if i < cb_size b then Inr (cb_items b ! i) else Inl (OutOfRange i))"

text \<open>
  Modelled from the spec: \<^verbatim>\<open>operator[]\<close>, for writing through the reference that \<^verbatim>\<open>b[i]\<close>
  returns, with the same range of indices.
\<close>

definition cb_modify ::
  "'a circular_buffer \<Rightarrow> nat \<Rightarrow> ('a \<Rightarrow> 'a) \<Rightarrow> error + 'a circular_buffer" where
  "cb_modify b i f =
     (if i < cb_size b then Inr (b\<lparr>cb_items := (cb_items b)[i := f (cb_items b ! i)]\<rparr>)
      else Inl (OutOfRange i))"

text \<open>
  Subtraction of two \<^verbatim>\<open>size_t\<close> values: modulo \<open>2 ^ 64\<close>. The width is that of a 64-bit
  platform; with another width the index \<^verbatim>\<open>0 - 1\<close> is another number, equally far
  outside a history of at most 200 points.
\<close>

definition size_t_minus :: "nat \<Rightarrow> nat \<Rightarrow> nat" where
  "size_t_minus a b = (a + 2 ^ 64 - b) mod 2 ^ 64"

subsection \<open>The parameters of the algorithm\<close>

text \<open>
  The fields of the source that end in an underscore (\<^verbatim>\<open>timer_\<close>, \<^verbatim>\<open>control_signal_\<close>,
  \<^verbatim>\<open>control_gain_\<close>, \<^verbatim>\<open>last_timestamp_\<close>, \<^verbatim>\<open>filtered_signal_\<close>, \<^verbatim>\<open>mixing_parameter_\<close>) are
  written without it.
\<close>

record lr_guide_parameters =
  circular_buffer_parameters :: "lr_guiding_circular_datapoints circular_buffer"
  timer :: int
  control_signal :: real
  control_gain :: real
  last_timestamp :: real
  filtered_signal :: real
  mixing_parameter :: real
  min_nb_element_for_inference :: int

text \<open>
  The constructor \<^verbatim>\<open>lr_guide_parameters()\<close>. It starts the stop watch (at \<open>now\<close>) and leaves
  the gain and the mixing parameter uninitialised: their indeterminate values are the
  arguments \<open>g\<close> and \<open>m\<close>.
\<close>

definition lr_guide_parameters_new :: "int \<Rightarrow> real \<Rightarrow> real \<Rightarrow> lr_guide_parameters" where
  "lr_guide_parameters_new now g m =
     \<lparr>circular_buffer_parameters = circular_buffer_new 200,
      timer = now,
      control_signal = 0,
      control_gain = g,
      last_timestamp = 0,
      filtered_signal = 0,
      mixing_parameter = m,
      min_nb_element_for_inference = 0\<rparr>"

definition get_number_of_measurements :: "lr_guide_parameters \<Rightarrow> nat" where
  "get_number_of_measurements p = cb_size (circular_buffer_parameters p)"

text \<open>
  \<^verbatim>\<open>get_last_point()\<close> and \<^verbatim>\<open>get_second_last_point()\<close> return references to the elements
  at \<^verbatim>\<open>size() - 1\<close> and \<^verbatim>\<open>size() - 2\<close>, the end of the history away from index 0. The
  differences are computed on \<^verbatim>\<open>size_t\<close>. Each accessor is modelled by a read and by a
  write through the reference.
\<close>

definition last_index :: "lr_guide_parameters \<Rightarrow> nat" where
  "last_index p = size_t_minus (cb_size (circular_buffer_parameters p)) 1"

definition second_last_index :: "lr_guide_parameters \<Rightarrow> nat" where
  "second_last_index p = size_t_minus (cb_size (circular_buffer_parameters p)) 2"

definition get_last_point :: "lr_guide_parameters \<Rightarrow> error + lr_guiding_circular_datapoints" where
  "get_last_point p = cb_at (circular_buffer_parameters p) (last_index p)"

definition get_second_last_point ::
  "lr_guide_parameters \<Rightarrow> error + lr_guiding_circular_datapoints" where
  "get_second_last_point p = cb_at (circular_buffer_parameters p) (second_last_index p)"

definition set_last_point ::
  "(lr_guiding_circular_datapoints \<Rightarrow> lr_guiding_circular_datapoints) \<Rightarrow>
   lr_guide_parameters \<Rightarrow> error + lr_guide_parameters" where
  "set_last_point f p =
     (case cb_modify (circular_buffer_parameters p) (last_index p) f of
        Inl e \<Rightarrow> Inl e
      | Inr b \<Rightarrow> Inr (p\<lparr>circular_buffer_parameters := b\<rparr>))"

definition add_one_point :: "lr_guide_parameters \<Rightarrow> lr_guide_parameters" where
  "add_one_point p =
     p\<lparr>circular_buffer_parameters := push_front data_points (circular_buffer_parameters p)\<rparr>"

definition clear :: "lr_guide_parameters \<Rightarrow> lr_guide_parameters" where
  "clear p = p\<lparr>circular_buffer_parameters := cb_clear (circular_buffer_parameters p)\<rparr>"

subsection \<open>The configuration profile\<close>

text \<open>
  The two entries of the persistent profile (\<^verbatim>\<open>pConfig->Profile\<close>) that the algorithm
  reads and writes, under the keys \<^verbatim>\<open>/lr_controlGain\<close> and
  \<^verbatim>\<open>/lr_nbminelementforinference\<close> of its configuration path. An entry that was never
  written is \<open>None\<close>, and reading it gives the default passed by the reader.
\<close>

record profile =
  lr_controlGain :: "real option"
  lr_nbminelementforinference :: "int option"

definition GetDouble :: "real option \<Rightarrow> real \<Rightarrow> real" where
  "GetDouble entry dflt = (case entry of None \<Rightarrow> dflt | Some v \<Rightarrow> v)"

definition GetInt :: "int option \<Rightarrow> int \<Rightarrow> int" where
  "GetInt entry dflt = (case entry of None \<Rightarrow> dflt | Some v \<Rightarrow> v)"

definition DefaultControlGain :: real where
  "DefaultControlGain = 1.0"

definition DefaultNbMinPointsForInference :: int where
  "DefaultNbMinPointsForInference = 25"

subsection \<open>Setters and getters\<close>

text \<open>
  Both setters return the flag \<^verbatim>\<open>error\<close>: \<open>True\<close> when the value was rejected. The
  exception thrown on an invalid value is caught inside the setter, so it is a branch.
\<close>

definition SetControlGain ::
  "real \<Rightarrow> lr_guide_parameters \<times> profile \<Rightarrow> bool \<times> lr_guide_parameters \<times> profile" where
  "SetControlGain gain s =
     (let (p, cfg) = s;
          (err, p') =
            (if gain < 0 \<or> gain > 1
             then (True, p\<lparr>control_gain := DefaultControlGain\<rparr>)
             else (False, p\<lparr>control_gain := gain\<rparr>))
      in (err, p', cfg\<lparr>lr_controlGain := Some (control_gain p')\<rparr>))"

definition SetNbElementForInference ::
  "int \<Rightarrow> lr_guide_parameters \<times> profile \<Rightarrow> bool \<times> lr_guide_parameters \<times> profile" where
  "SetNbElementForInference nb_elements s =
     (let (p, cfg) = s;
          (err, p') =
            (if nb_elements < 0
             then (True, p\<lparr>min_nb_element_for_inference := DefaultNbMinPointsForInference\<rparr>)
             else (False, p\<lparr>min_nb_element_for_inference := nb_elements\<rparr>))
      in (err, p',
          cfg\<lparr>lr_nbminelementforinference := Some (min_nb_element_for_inference p')\<rparr>))"



subsection \<open>Bookkeeping of one guiding cycle\<close>

text \<open>
  \<^verbatim>\<open>HandleTimestamps\<close>: the stop watch is restarted when the history is empty; the time read
  from it is stored as the last time stamp, and the last point gets the middle of the
  interval, in seconds.
\<close>

definition HandleTimestamps :: "int \<Rightarrow> lr_guide_parameters \<Rightarrow> error + lr_guide_parameters" where
  "HandleTimestamps now p =
     (let p1 = (if get_number_of_measurements p = 0 then p\<lparr>timer := now\<rparr> else p);
          time_now = real_of_int (now - timer p1);
          delta_measurement_time_ms = time_now - last_timestamp p1;
          p2 = p1\<lparr>last_timestamp := time_now\<rparr>
      in set_last_point
           (\<lambda>d. d\<lparr>timestamp := (last_timestamp p2 - delta_measurement_time_ms / 2) / 1000\<rparr>)
           p2)"

definition HandleMeasurements :: "real \<Rightarrow> lr_guide_parameters \<Rightarrow> error + lr_guide_parameters" where
  "HandleMeasurements input p = set_last_point (\<lambda>d. d\<lparr>measurement := input\<rparr>) p"

text \<open>
  \<^verbatim>\<open>HandleControls\<close>: with at most one point, the control is stored in the last point.
  The other branch of the source is the expression \<^verbatim>\<open>parameters->get_last_point().control\<close>
  with no assignment: it evaluates the accessor and stores nothing.
\<close>

definition HandleControls :: "real \<Rightarrow> lr_guide_parameters \<Rightarrow> error + lr_guide_parameters" where
  "HandleControls control_input p =
     (if get_number_of_measurements p \<le> 1
      then set_last_point (\<lambda>d. d\<lparr>control := control_input\<rparr>) p
      else (case get_last_point p of Inl e \<Rightarrow> Inl e | Inr d \<Rightarrow> Inr p))"

definition HandleModifiedMeasurements ::
  "real \<Rightarrow> lr_guide_parameters \<Rightarrow> error + lr_guide_parameters" where
  "HandleModifiedMeasurements input p =
     (if get_number_of_measurements p \<le> 1
      then set_last_point (\<lambda>d. d\<lparr>modified_measurement := input\<rparr>) p
      else (case get_second_last_point p of
              Inl e \<Rightarrow> Inl e
            | Inr q \<Rightarrow>
                set_last_point
                  (\<lambda>d. d\<lparr>modified_measurement :=
                            input + control q - measurement q + modified_measurement q\<rparr>)
                  p))"

subsection \<open>The estimator\<close>

text \<open>
  The activation test: \<^verbatim>\<open>min_nb_element_for_inference > 0\<close> and the number of measurements
  is greater than it. The second comparison converts the \<^verbatim>\<open>int\<close> to \<^verbatim>\<open>size_t\<close>, which
  keeps its value because the first conjunct has been checked before.
\<close>

definition lr_allowed :: "lr_guide_parameters \<Rightarrow> bool" where
  "lr_allowed p \<longleftrightarrow>
     min_nb_element_for_inference p > 0 \<and>
     int (get_number_of_measurements p) > min_nb_element_for_inference p"

text \<open>
  The loop that transfers the data from the history to the two vectors, from index \<open>i\<close> on.
  The vectors are lists of the length of the history; the loop writes every entry before
  anything reads it. The index \<^verbatim>\<open>i-1\<close> is a \<^verbatim>\<open>size_t\<close> subtraction.
\<close>

function transfer_data ::
  "lr_guiding_circular_datapoints circular_buffer \<Rightarrow> nat \<Rightarrow> real list \<times> real list \<Rightarrow>
   error + real list \<times> real list" where
  "transfer_data b i (timestamps, measurements) =
     (if i < cb_size b then
        (case cb_at b i of
           Inl e \<Rightarrow> Inl e
         | Inr d \<Rightarrow>
             (if cb_size b = 1
              then transfer_data b (i + 1)
                     (timestamps[i := timestamp d], measurements[i := measurement d])
              else (case cb_at b (size_t_minus i 1) of
                      Inl e \<Rightarrow> Inl e
                    | Inr q \<Rightarrow>
                        transfer_data b (i + 1)
                          (timestamps[i := timestamp d],
                           measurements[i := control q + measurement d]))))
      else Inr (timestamps, measurements))"
  by pat_completeness auto
termination
  by (relation "measure (\<lambda>(b, i, v). cb_size b - i)") auto

declare transfer_data.simps [simp del]

text \<open>
  Truncating division of a C++ \<^verbatim>\<open>int\<close> by a positive constant, as in
  \<^verbatim>\<open>delta_controller_time_ms / 1000\<close>.
\<close>

definition int_div :: "int \<Rightarrow> int \<Rightarrow> int" where
  "int_div a b = (if 0 \<le> a then a div b else - ((- a) div b))"

text \<open>
  The part of \<^verbatim>\<open>result\<close> and \<^verbatim>\<open>deduceResult\<close> inside the activation test, up to the
  prediction. The linear algebra is done by the Eigen library on a vector
  \<^verbatim>\<open>mod_measurements\<close>; neither is defined in the sources, so the second weight of the
  solution, \<^verbatim>\<open>weights(1)\<close>, is the parameter \<open>weights1\<close>, a function of the two vectors
  that the loop has filled.
\<close>

definition lr_prediction ::
  "(real list \<Rightarrow> real list \<Rightarrow> real) \<Rightarrow> int \<Rightarrow> lr_guide_parameters \<Rightarrow> error + real" where
  "lr_prediction weights1 delta_controller_time_ms p =
     (let n = get_number_of_measurements p
      in case transfer_data (circular_buffer_parameters p) 0 (replicate n 0, replicate n 0) of
           Inl e \<Rightarrow> Inl e
         | Inr (timestamps, measurements) \<Rightarrow>
             Inr (real_of_int (int_div delta_controller_time_ms 1000)
                  * weights1 timestamps measurements))"

subsection \<open>The control step, the prediction step and the reset\<close>

text \<open>
  \<^verbatim>\<open>result(input)\<close>. Besides the input it reads the wall clock (\<open>now\<close>) through the stop
  watch and the requested exposure duration (\<^verbatim>\<open>pFrame->RequestedExposureDuration()\<close>, the
  argument \<open>exposure\<close>). It returns the control signal and the new parameters.
\<close>

definition result ::
  "(real list \<Rightarrow> real list \<Rightarrow> real) \<Rightarrow> int \<Rightarrow> int \<Rightarrow> real \<Rightarrow> lr_guide_parameters \<Rightarrow>
   error + real \<times> lr_guide_parameters" where
  "result weights1 now exposure input p =
     (case HandleMeasurements input (add_one_point p) of
        Inl e \<Rightarrow> Inl e
      | Inr p1 \<Rightarrow>
     (case HandleTimestamps now p1 of
        Inl e \<Rightarrow> Inl e
      | Inr p2 \<Rightarrow>
     (let p3 = p2\<lparr>control_signal := control_gain p2 * input\<rparr>
      in case (if lr_allowed p3
               then (case lr_prediction weights1 exposure p3 of
                       Inl e \<Rightarrow> Inl e
                     | Inr prediction \<Rightarrow>
                         Inr (p3\<lparr>control_signal := control_signal p3 + prediction\<rparr>))
               else Inr p3) of
           Inl e \<Rightarrow> Inl e
         | Inr p4 \<Rightarrow>
        (case HandleControls (control_signal p4) p4 of
           Inl e \<Rightarrow> Inl e
         | Inr p5 \<Rightarrow> Inr (control_signal p5, p5)))))"

text \<open>\<^verbatim>\<open>deduceResult()\<close>: the same without a new point, a measurement or a time stamp.\<close>

definition deduceResult ::
  "(real list \<Rightarrow> real list \<Rightarrow> real) \<Rightarrow> int \<Rightarrow> lr_guide_parameters \<Rightarrow>
   error + real \<times> lr_guide_parameters" where
  "deduceResult weights1 exposure p =
     (case (if lr_allowed p
            then (case lr_prediction weights1 exposure p of
                    Inl e \<Rightarrow> Inl e
                  | Inr prediction \<Rightarrow> Inr (p\<lparr>control_signal := prediction\<rparr>))
            else Inr p) of
        Inl e \<Rightarrow> Inl e
      | Inr p1 \<Rightarrow>
     (case HandleControls (control_signal p1) p1 of
        Inl e \<Rightarrow> Inl e
      | Inr p2 \<Rightarrow> Inr (control_signal p2, p2)))"

definition reset :: "lr_guide_parameters \<Rightarrow> lr_guide_parameters" where
  "reset p = clear p"

text \<open>
  The constructor of \<^verbatim>\<open>GuideLinearRegression\<close>: new parameters, the gain and the threshold
  read from the profile (with their defaults) and set through the setters, then a reset.
\<close>

definition GuideLinearRegression ::
  "int \<Rightarrow> real \<Rightarrow> real \<Rightarrow> profile \<Rightarrow> lr_guide_parameters \<times> profile" where
  "GuideLinearRegression now g m cfg =
     (let p = lr_guide_parameters_new now g m;
          gain = GetDouble (lr_controlGain cfg) DefaultControlGain;
          (e1, s1) = SetControlGain gain (p, cfg);
          nb_element_for_inference =
            GetInt (lr_nbminelementforinference (snd s1)) DefaultNbMinPointsForInference;
          (e2, s2) = SetNbElementForInference nb_element_for_inference s1
      in (reset (fst s2), snd s2))"

subsection \<open>Sequences of calls\<close>

text \<open>
  A call of the controller: a control step with the wall clock, the exposure and the
  measurement, a prediction step with the exposure, or a reset. A sequence of calls stops
  at the first one that fails.
\<close>

datatype call = Step int int real | PredictOnly int | Reset

fun do_call ::
  "(real list \<Rightarrow> real list \<Rightarrow> real) \<Rightarrow> call \<Rightarrow> lr_guide_parameters \<Rightarrow>
   error + lr_guide_parameters" where
  "do_call w (Step now exposure input) p =
     (case result w now exposure input p of Inl e \<Rightarrow> Inl e | Inr (c, p') \<Rightarrow> Inr p')"
| "do_call w (PredictOnly exposure) p =
     (case deduceResult w exposure p of Inl e \<Rightarrow> Inl e | Inr (c, p') \<Rightarrow> Inr p')"
| "do_call w Reset p = Inr (reset p)"

fun do_calls ::
  "(real list \<Rightarrow> real list \<Rightarrow> real) \<Rightarrow> call list \<Rightarrow> lr_guide_parameters \<Rightarrow>
   error + lr_guide_parameters" where
  "do_calls w [] p = Inr p"
| "do_calls w (c # cs) p =
     (case do_call w c p of Inl e \<Rightarrow> Inl e | Inr p' \<Rightarrow> do_calls w cs p')"

subsection \<open>Reference inputs\<close>

text \<open>
  Concrete inputs on which the functions are evaluated below: a fit with slope zero in
  place of the Eigen computation, a profile with gain 0.8 and threshold 3, the controller
  constructed from it at wall-clock time 0, and that controller after one control step at
  wall-clock time 5000 with measurement 1.
\<close>

definition flat_fit :: "real list \<Rightarrow> real list \<Rightarrow> real" where
  "flat_fit timestamps measurements = 0"

definition example_profile :: profile where
  "example_profile = \<lparr>lr_controlGain = Some 0.8, lr_nbminelementforinference = Some 3\<rparr>"

definition fresh_controller :: lr_guide_parameters where
  "fresh_controller = fst (GuideLinearRegression 0 0 0 example_profile)"

definition after_first_step :: lr_guide_parameters where
  "after_first_step =
     \<lparr>circular_buffer_parameters =
        \<lparr>cb_capacity = 200,
         cb_items =
           [\<lparr>timestamp = 5 / 2, measurement = 1, modified_measurement = 0,
             control = 4 / 5\<rparr>]\<rparr>,
      timer = 0,
      control_signal = 4 / 5,
      control_gain = 4 / 5,
      last_timestamp = 5000,
      filtered_signal = 0,
      mixing_parameter = 0,
      min_nb_element_for_inference = 3\<rparr>"

text \<open>
  A controller with threshold 1 whose history holds two points, so that the estimator is
  allowed.
\<close>

definition two_points :: lr_guide_parameters where
  "two_points =
     \<lparr>circular_buffer_parameters =
        \<lparr>cb_capacity = 200, cb_items = [data_points, data_points]\<rparr>,
      timer = 0,
      control_signal = 0,
      control_gain = 1,
      last_timestamp = 0,
      filtered_signal = 0,
      mixing_parameter = 0,
      min_nb_element_for_inference = 1\<rparr>"

text \<open>The controller with gain 1 and threshold 1, constructed at wall-clock time 0.\<close>

definition eager_controller :: lr_guide_parameters where
  "eager_controller =
     fst (GuideLinearRegression 0 0 0
            \<lparr>lr_controlGain = Some 1, lr_nbminelementforinference = Some 1\<rparr>)"


subsection \<open>The invariant of the history\<close>




section \<open>Auxiliary facts\<close>

subsection \<open>Index arithmetic and the accessors\<close>

lemma size_t_minus_zero_one: "size_t_minus 0 1 = 18446744073709551615"
  by (simp add: size_t_minus_def)

lemma size_t_minus_pos_one:
  assumes "0 < n" and "n < 2 ^ 64"
  shows "size_t_minus n 1 = n - 1"
proof -
  have "n + 2 ^ 64 - 1 = (n - 1) + 2 ^ 64" using assms by simp
  then have "size_t_minus n 1 = ((n - 1) + 2 ^ 64) mod 2 ^ 64"
    by (simp add: size_t_minus_def)
  also have "\<dots> = (n - 1) mod 2 ^ 64" by simp
  also have "\<dots> = n - 1" using assms by simp
  finally show ?thesis .
qed

lemma last_index_empty:
  assumes "get_number_of_measurements p = 0"
  shows "last_index p = 18446744073709551615"
proof -
  have "cb_size (circular_buffer_parameters p) = 0"
    using assms by (simp add: get_number_of_measurements_def)
  then show ?thesis
    unfolding last_index_def by (simp only: size_t_minus_zero_one)
qed

lemma last_index_nonempty:
  assumes "0 < get_number_of_measurements p" and "get_number_of_measurements p \<le> 200"
  shows "last_index p = get_number_of_measurements p - 1"
proof -
  have "get_number_of_measurements p < 2 ^ 64"
    using assms(2) by simp
  with assms(1) show ?thesis
    unfolding last_index_def get_number_of_measurements_def [symmetric]
    by (rule size_t_minus_pos_one)
qed

lemma set_last_point_empty:
  "get_number_of_measurements p = 0 \<Longrightarrow>
   set_last_point f p = Inl (OutOfRange 18446744073709551615)"
  by (simp add: set_last_point_def cb_modify_def last_index_empty)
     (simp add: get_number_of_measurements_def)

lemma get_last_point_empty:
  "get_number_of_measurements p = 0 \<Longrightarrow>
   get_last_point p = Inl (OutOfRange 18446744073709551615)"
  by (simp add: get_last_point_def cb_at_def last_index_empty)
     (simp add: get_number_of_measurements_def)

lemma set_last_point_Inr:
  assumes "0 < get_number_of_measurements p" and "get_number_of_measurements p \<le> 200"
  shows "\<exists>b'. set_last_point f p = Inr (p\<lparr>circular_buffer_parameters := b'\<rparr>) \<and>
           cb_capacity b' = cb_capacity (circular_buffer_parameters p) \<and>
           cb_size b' = cb_size (circular_buffer_parameters p)"
proof -
  have i: "last_index p < cb_size (circular_buffer_parameters p)"
    using assms by (simp add: last_index_nonempty) (simp add: get_number_of_measurements_def)
  let ?b = "circular_buffer_parameters p"
  let ?b' = "?b\<lparr>cb_items := (cb_items ?b)[last_index p := f (cb_items ?b ! last_index p)]\<rparr>"
  from i have "set_last_point f p = Inr (p\<lparr>circular_buffer_parameters := ?b'\<rparr>)"
    by (simp add: set_last_point_def cb_modify_def)
  moreover have "cb_capacity ?b' = cb_capacity ?b" by simp
  moreover have "cb_size ?b' = cb_size ?b" by (simp add: cb_size_def)
  ultimately show ?thesis by blast
qed

lemma get_last_point_Inr:
  assumes "0 < get_number_of_measurements p" and "get_number_of_measurements p \<le> 200"
  shows "\<exists>d. get_last_point p = Inr d"
proof -
  have "last_index p < cb_size (circular_buffer_parameters p)"
    using assms by (simp add: last_index_nonempty) (simp add: get_number_of_measurements_def)
  then show ?thesis
    by (simp add: get_last_point_def cb_at_def)
qed

lemma HandleMeasurements_Inr:
  assumes "0 < get_number_of_measurements p" and "get_number_of_measurements p \<le> 200"
  shows "\<exists>b'. HandleMeasurements x p = Inr (p\<lparr>circular_buffer_parameters := b'\<rparr>) \<and>
           cb_capacity b' = cb_capacity (circular_buffer_parameters p) \<and>
           cb_size b' = cb_size (circular_buffer_parameters p)"
  unfolding HandleMeasurements_def using assms by (rule set_last_point_Inr)

lemma HandleTimestamps_Inr:
  assumes "0 < get_number_of_measurements p" and "get_number_of_measurements p \<le> 200"
  shows "\<exists>b'. HandleTimestamps now p =
             Inr (p\<lparr>last_timestamp := real_of_int (now - timer p),
                    circular_buffer_parameters := b'\<rparr>) \<and>
           cb_capacity b' = cb_capacity (circular_buffer_parameters p) \<and>
           cb_size b' = cb_size (circular_buffer_parameters p)"
proof -
  let ?q = "p\<lparr>last_timestamp := real_of_int (now - timer p)\<rparr>"
  have n: "0 < get_number_of_measurements ?q" "get_number_of_measurements ?q \<le> 200"
    using assms by (simp_all add: get_number_of_measurements_def)
  show ?thesis
    using set_last_point_Inr [OF n,
      of "\<lambda>d. d\<lparr>timestamp := (last_timestamp ?q - (real_of_int (now - timer p) - last_timestamp p) / 2) / 1000\<rparr>"]
      assms(1)
    by (auto simp add: HandleTimestamps_def Let_def)
qed

lemma HandleControls_Inr:
  assumes "0 < get_number_of_measurements p" and "get_number_of_measurements p \<le> 200"
  shows "\<exists>b'. HandleControls c p = Inr (p\<lparr>circular_buffer_parameters := b'\<rparr>) \<and>
           cb_capacity b' = cb_capacity (circular_buffer_parameters p) \<and>
           cb_size b' = cb_size (circular_buffer_parameters p)"
proof (cases "get_number_of_measurements p \<le> 1")
  case True
  then show ?thesis
    using set_last_point_Inr [OF assms] by (simp add: HandleControls_def)
next
  case False
  obtain d where "get_last_point p = Inr d"
    using get_last_point_Inr [OF assms] by blast
  with False have "HandleControls c p = Inr (p\<lparr>circular_buffer_parameters := circular_buffer_parameters p\<rparr>)"
    by (simp add: HandleControls_def)
  then show ?thesis by blast
qed

lemma add_one_point_size:
  "get_number_of_measurements (add_one_point p) =
     min (cb_capacity (circular_buffer_parameters p)) (get_number_of_measurements p + 1)"
  by (simp add: add_one_point_def push_front_def get_number_of_measurements_def cb_size_def)

lemma add_one_point_capacity:
  "cb_capacity (circular_buffer_parameters (add_one_point p)) =
     cb_capacity (circular_buffer_parameters p)"
  by (simp add: add_one_point_def push_front_def)


lemma transfer_data_first_index:
  assumes "1 < cb_size b" and "cb_size b \<le> 200"
  shows "transfer_data b 0 v = Inl (OutOfRange 18446744073709551615)"
proof -
  obtain ts ms where v: "v = (ts, ms)" by (cases v)
  have "cb_at b (size_t_minus 0 1) = Inl (OutOfRange 18446744073709551615)"
    using assms(2) by (simp only: size_t_minus_zero_one) (simp add: cb_at_def)
  moreover have "\<exists>d. cb_at b 0 = Inr d"
    using assms(1) by (simp add: cb_at_def)
  ultimately show ?thesis
    using assms(1) unfolding v by (subst transfer_data.simps) auto
qed

lemma lr_prediction_fails:
  assumes "lr_allowed p" and "get_number_of_measurements p \<le> 200"
  shows "lr_prediction w e p = Inl (OutOfRange 18446744073709551615)"
proof -
  have "1 < cb_size (circular_buffer_parameters p)"
    using assms(1) by (simp add: lr_allowed_def get_number_of_measurements_def)
  moreover have "cb_size (circular_buffer_parameters p) \<le> 200"
    using assms(2) by (simp add: get_number_of_measurements_def)
  ultimately show ?thesis
    by (simp add: lr_prediction_def transfer_data_first_index)
qed

lemma deduceResult_active:
  assumes "lr_allowed p" and "get_number_of_measurements p \<le> 200"
  shows "deduceResult w e p = Inl (OutOfRange 18446744073709551615)"
  using assms by (simp add: deduceResult_def lr_prediction_fails)

lemma deduceResult_empty:
  assumes "get_number_of_measurements p = 0"
  shows "deduceResult w e p = Inl (OutOfRange 18446744073709551615)"
proof -
  have "\<not> lr_allowed p" using assms by (simp add: lr_allowed_def)
  moreover have "HandleControls (control_signal p) p = Inl (OutOfRange 18446744073709551615)"
    using assms by (simp add: HandleControls_def set_last_point_empty)
  ultimately show ?thesis by (simp add: deduceResult_def)
qed

lemma deduceResult_inactive:
  assumes "\<not> lr_allowed p" and "0 < get_number_of_measurements p"
    and "get_number_of_measurements p \<le> 200"
  shows "\<exists>b'. deduceResult w e p =
             Inr (control_signal p, p\<lparr>circular_buffer_parameters := b'\<rparr>) \<and>
           cb_capacity b' = cb_capacity (circular_buffer_parameters p) \<and>
           cb_size b' = cb_size (circular_buffer_parameters p)"
proof -
  obtain b' where b': "HandleControls (control_signal p) p = Inr (p\<lparr>circular_buffer_parameters := b'\<rparr>)"
    "cb_capacity b' = cb_capacity (circular_buffer_parameters p)"
    "cb_size b' = cb_size (circular_buffer_parameters p)"
    using HandleControls_Inr [OF assms(2,3)] by blast
  with assms(1) have "deduceResult w e p = Inr (control_signal p, p\<lparr>circular_buffer_parameters := b'\<rparr>)"
    by (simp add: deduceResult_def)
  with b' show ?thesis by blast
qed

lemma result_prefix:
  assumes "cb_capacity (circular_buffer_parameters p) = 200"
  shows "\<exists>b1 b2.
           HandleMeasurements x (add_one_point p) = Inr (p\<lparr>circular_buffer_parameters := b1\<rparr>) \<and>
           HandleTimestamps now (p\<lparr>circular_buffer_parameters := b1\<rparr>) =
             Inr (p\<lparr>last_timestamp := real_of_int (now - timer p),
                    circular_buffer_parameters := b2\<rparr>) \<and>
           cb_capacity b2 = 200 \<and>
           cb_size b2 = min 200 (get_number_of_measurements p + 1)"
proof -
  let ?q = "add_one_point p"
  have n: "get_number_of_measurements ?q = min 200 (get_number_of_measurements p + 1)"
    using assms by (simp add: add_one_point_size)
  then have q: "0 < get_number_of_measurements ?q" "get_number_of_measurements ?q \<le> 200"
    by simp_all
  obtain b1 where b1:
    "HandleMeasurements x ?q = Inr (?q\<lparr>circular_buffer_parameters := b1\<rparr>)"
    "cb_capacity b1 = cb_capacity (circular_buffer_parameters ?q)"
    "cb_size b1 = cb_size (circular_buffer_parameters ?q)"
    using HandleMeasurements_Inr [OF q] by blast
  let ?p1 = "p\<lparr>circular_buffer_parameters := b1\<rparr>"
  have p1: "?q\<lparr>circular_buffer_parameters := b1\<rparr> = ?p1"
    by (simp add: add_one_point_def)
  have s1: "get_number_of_measurements ?p1 = min 200 (get_number_of_measurements p + 1)"
    using b1(3) n by (simp add: get_number_of_measurements_def)
  then have q1: "0 < get_number_of_measurements ?p1" "get_number_of_measurements ?p1 \<le> 200"
    by simp_all
  obtain b2 where b2:
    "HandleTimestamps now ?p1 =
       Inr (?p1\<lparr>last_timestamp := real_of_int (now - timer ?p1),
                 circular_buffer_parameters := b2\<rparr>)"
    "cb_capacity b2 = cb_capacity (circular_buffer_parameters ?p1)"
    "cb_size b2 = cb_size (circular_buffer_parameters ?p1)"
    using HandleTimestamps_Inr [OF q1] by blast
  have "HandleMeasurements x ?q = Inr ?p1"
    using b1(1) p1 by simp
  moreover have "HandleTimestamps now ?p1 =
      Inr (p\<lparr>last_timestamp := real_of_int (now - timer p), circular_buffer_parameters := b2\<rparr>)"
    using b2(1) by simp
  moreover have "cb_capacity b2 = 200"
    using b2(2) b1(2) assms by (simp add: add_one_point_capacity)
  moreover have "cb_size b2 = min 200 (get_number_of_measurements p + 1)"
    using b2(3) s1 by (simp add: get_number_of_measurements_def)
  ultimately show ?thesis by blast
qed

lemma result_active:
  assumes "cb_capacity (circular_buffer_parameters p) = 200"
    and "lr_allowed (add_one_point p)"
  shows "result w now e x p = Inl (OutOfRange 18446744073709551615)"
proof -
  obtain b1 b2 where b:
    "HandleMeasurements x (add_one_point p) = Inr (p\<lparr>circular_buffer_parameters := b1\<rparr>)"
    "HandleTimestamps now (p\<lparr>circular_buffer_parameters := b1\<rparr>) =
       Inr (p\<lparr>last_timestamp := real_of_int (now - timer p),
              circular_buffer_parameters := b2\<rparr>)"
    "cb_capacity b2 = 200"
    "cb_size b2 = min 200 (get_number_of_measurements p + 1)"
    using result_prefix [OF assms(1)] by blast
  let ?p3 = "p\<lparr>last_timestamp := real_of_int (now - timer p),
               circular_buffer_parameters := b2,
               control_signal := control_gain p * x\<rparr>"
  have n: "get_number_of_measurements ?p3 = get_number_of_measurements (add_one_point p)"
    using b(4) assms(1) by (simp add: add_one_point_size) (simp add: get_number_of_measurements_def)
  then have "lr_allowed ?p3"
    using assms(2) by (simp add: lr_allowed_def add_one_point_def)
  moreover have "get_number_of_measurements ?p3 \<le> 200"
    using b(4) by (simp add: get_number_of_measurements_def)
  ultimately have "lr_prediction w e ?p3 = Inl (OutOfRange 18446744073709551615)"
    by (rule lr_prediction_fails)
  with \<open>lr_allowed ?p3\<close> show ?thesis
    using b(1,2) by (simp add: result_def)
qed

lemma result_inactive:
  assumes "cb_capacity (circular_buffer_parameters p) = 200"
    and "\<not> lr_allowed (add_one_point p)"
  shows "\<exists>b'. result w now e x p =
             Inr (control_gain p * x,
                  p\<lparr>last_timestamp := real_of_int (now - timer p),
                    control_signal := control_gain p * x,
                    circular_buffer_parameters := b'\<rparr>) \<and>
           cb_capacity b' = 200 \<and>
           cb_size b' = min 200 (get_number_of_measurements p + 1)"
proof -
  obtain b1 b2 where b:
    "HandleMeasurements x (add_one_point p) = Inr (p\<lparr>circular_buffer_parameters := b1\<rparr>)"
    "HandleTimestamps now (p\<lparr>circular_buffer_parameters := b1\<rparr>) =
       Inr (p\<lparr>last_timestamp := real_of_int (now - timer p),
              circular_buffer_parameters := b2\<rparr>)"
    "cb_capacity b2 = 200"
    "cb_size b2 = min 200 (get_number_of_measurements p + 1)"
    using result_prefix [OF assms(1)] by blast
  let ?p3 = "p\<lparr>last_timestamp := real_of_int (now - timer p),
               circular_buffer_parameters := b2,
               control_signal := control_gain p * x\<rparr>"
  have n: "get_number_of_measurements ?p3 = get_number_of_measurements (add_one_point p)"
    using b(4) assms(1) by (simp add: add_one_point_size) (simp add: get_number_of_measurements_def)
  then have na: "\<not> lr_allowed ?p3"
    using assms(2) by (simp add: lr_allowed_def add_one_point_def)
  have q3: "0 < get_number_of_measurements ?p3" "get_number_of_measurements ?p3 \<le> 200"
    using b(4) by (simp_all add: get_number_of_measurements_def)
  obtain b3 where b3:
    "HandleControls (control_gain p * x) ?p3 = Inr (?p3\<lparr>circular_buffer_parameters := b3\<rparr>)"
    "cb_capacity b3 = cb_capacity (circular_buffer_parameters ?p3)"
    "cb_size b3 = cb_size (circular_buffer_parameters ?p3)"
    using HandleControls_Inr [OF q3] by blast
  have "result w now e x p =
          Inr (control_gain p * x,
               p\<lparr>last_timestamp := real_of_int (now - timer p),
                 control_signal := control_gain p * x,
                 circular_buffer_parameters := b3\<rparr>)"
    using b(1,2) na b3(1) by (simp add: result_def)
  moreover have "cb_capacity b3 = 200" using b3(2) b(3) by simp
  moreover have "cb_size b3 = min 200 (get_number_of_measurements p + 1)"
    using b3(3) b(4) by simp
  ultimately show ?thesis by blast
qed

subsection \<open>The reference inputs, evaluated\<close>

lemma fresh_controller_eq:
  "fresh_controller =
     \<lparr>circular_buffer_parameters = \<lparr>cb_capacity = 200, cb_items = []\<rparr>,
      timer = 0, control_signal = 0, control_gain = 4 / 5, last_timestamp = 0,
      filtered_signal = 0, mixing_parameter = 0, min_nb_element_for_inference = 3\<rparr>"
  by (simp add: fresh_controller_def GuideLinearRegression_def lr_guide_parameters_new_def
      circular_buffer_new_def example_profile_def GetDouble_def GetInt_def SetControlGain_def
      SetNbElementForInference_def reset_def clear_def cb_clear_def Let_def)

lemmas step_defs =
  result_def HandleMeasurements_def HandleTimestamps_def HandleControls_def
  set_last_point_def get_last_point_def cb_modify_def cb_at_def cb_size_def last_index_def
  add_one_point_def push_front_def get_number_of_measurements_def lr_allowed_def
  data_points_def size_t_minus_def Let_def

lemma first_step:
  "result w 5000 1000 1 fresh_controller = Inr (4 / 5, after_first_step)"
  by (simp add: fresh_controller_eq after_first_step_def step_defs)

section \<open>The claims\<close>

subsection \<open>Validation of the configuration\<close>



lemma two_points_facts:
  "cb_capacity (circular_buffer_parameters two_points) = 200"
  "get_number_of_measurements two_points \<le> 200"
  "lr_allowed two_points"
  "lr_allowed (add_one_point two_points)"
  by (simp_all add: two_points_def get_number_of_measurements_def cb_size_def lr_allowed_def
      add_one_point_def push_front_def)

subsection \<open>Out-of-range accesses\<close>

text \<open>
  Claim C9. Whenever the activation test of the estimator holds (so that the history holds
  at least two points and the branch for one point is not taken), the loop that transfers
  the data, in \<^verbatim>\<open>result\<close> and in \<^verbatim>\<open>deduceResult\<close> alike, reads
  \<^verbatim>\<open>circular_buffer_parameters[i-1]\<close> at \<open>i = 0\<close>. The index is unsigned, so it is
  \<open>2 ^ 64 - 1\<close>, outside the history: the access fails, and with it every activated call.
  For \<^verbatim>\<open>result\<close> the test is made on the history that already holds the new point.
\<close>

theorem activated_call_out_of_range:
  assumes "cb_capacity (circular_buffer_parameters p) = 200"
    and "get_number_of_measurements p \<le> 200"
  shows "(lr_allowed p \<longrightarrow>
            1 < get_number_of_measurements p \<and>
            cb_at (circular_buffer_parameters p) (size_t_minus 0 1)
              = Inl (OutOfRange (2 ^ 64 - 1)) \<and>
            transfer_data (circular_buffer_parameters p) 0 v = Inl (OutOfRange (2 ^ 64 - 1)) \<and>
            deduceResult w exposure p = Inl (OutOfRange (2 ^ 64 - 1))) \<and>
         (lr_allowed (add_one_point p) \<longrightarrow>
            1 < get_number_of_measurements (add_one_point p) \<and>
            result w now exposure input p = Inl (OutOfRange (2 ^ 64 - 1)))"
proof (intro conjI impI)
  assume a: "lr_allowed p"
  then show n: "1 < get_number_of_measurements p"
    by (simp add: lr_allowed_def)
  have s: "cb_size (circular_buffer_parameters p) \<le> 200"
    using assms(2) by (simp add: get_number_of_measurements_def)
  then show "cb_at (circular_buffer_parameters p) (size_t_minus 0 1)
      = Inl (OutOfRange (2 ^ 64 - 1))"
    by (simp only: size_t_minus_zero_one) (simp add: cb_at_def)
  from n have "1 < cb_size (circular_buffer_parameters p)"
    by (simp add: get_number_of_measurements_def)
  then show "transfer_data (circular_buffer_parameters p) 0 v = Inl (OutOfRange (2 ^ 64 - 1))"
    using s by (simp add: transfer_data_first_index)
  show "deduceResult w exposure p = Inl (OutOfRange (2 ^ 64 - 1))"
    using a assms(2) by (simp add: deduceResult_active)
next
  assume a: "lr_allowed (add_one_point p)"
  then show "1 < get_number_of_measurements (add_one_point p)"
    by (simp add: lr_allowed_def)
  show "result w now exposure input p = Inl (OutOfRange (2 ^ 64 - 1))"
    using assms(1) a by (simp add: result_active)
qed

theorem activated_call_out_of_range_witness:
  "cb_capacity (circular_buffer_parameters two_points) = 200 \<and>
   get_number_of_measurements two_points \<le> 200 \<and>
   lr_allowed two_points \<and>
   lr_allowed (add_one_point two_points) \<and>
   transfer_data (circular_buffer_parameters two_points) 0 ([0, 0], [0, 0])
     = Inl (OutOfRange (2 ^ 64 - 1)) \<and>
   deduceResult flat_fit 1000 two_points = Inl (OutOfRange (2 ^ 64 - 1)) \<and>
   result flat_fit 1000 1000 1 two_points = Inl (OutOfRange (2 ^ 64 - 1))"
  using activated_call_out_of_range [OF two_points_facts(1,2),
      of "([0, 0], [0, 0])" flat_fit 1000 1000 1]
    two_points_facts
  by simp

text \<open>
  Claim C10. When \<^verbatim>\<open>deduceResult\<close> is called on an empty history (after a reset, or on a
  controller that was just constructed), the estimator is not allowed, and
  \<^verbatim>\<open>HandleControls\<close>, which is called in every case, writes through \<^verbatim>\<open>get_last_point()\<close>:
  index \<^verbatim>\<open>size() - 1\<close> with size 0, outside the history. So \<^verbatim>\<open>deduceResult\<close> can only
  succeed when a control step has added a point since the last reset.
\<close>

theorem predictOnly_on_empty_history:
  "(get_number_of_measurements p = 0 \<longrightarrow>
      get_last_point p = Inl (OutOfRange (2 ^ 64 - 1)) \<and>
      HandleControls c p = Inl (OutOfRange (2 ^ 64 - 1)) \<and>
      deduceResult w exposure p = Inl (OutOfRange (2 ^ 64 - 1))) \<and>
   deduceResult w exposure (reset p) = Inl (OutOfRange (2 ^ 64 - 1)) \<and>
   deduceResult w exposure (fst (GuideLinearRegression now g m cfg))
     = Inl (OutOfRange (2 ^ 64 - 1))"
proof (intro conjI impI)
  assume e: "get_number_of_measurements p = 0"
  then show "get_last_point p = Inl (OutOfRange (2 ^ 64 - 1))"
    by (simp add: get_last_point_empty)
  from e show "HandleControls c p = Inl (OutOfRange (2 ^ 64 - 1))"
    by (simp add: HandleControls_def set_last_point_empty)
  from e show "deduceResult w exposure p = Inl (OutOfRange (2 ^ 64 - 1))"
    by (simp add: deduceResult_empty)
next
  have "get_number_of_measurements (reset p) = 0"
    by (simp add: reset_def clear_def cb_clear_def get_number_of_measurements_def cb_size_def)
  then show "deduceResult w exposure (reset p) = Inl (OutOfRange (2 ^ 64 - 1))"
    by (simp add: deduceResult_empty)
next
  have "get_number_of_measurements (fst (GuideLinearRegression now g m cfg)) = 0"
    by (simp add: GuideLinearRegression_def Let_def split_beta reset_def clear_def cb_clear_def
        get_number_of_measurements_def cb_size_def)
  then show "deduceResult w exposure (fst (GuideLinearRegression now g m cfg))
      = Inl (OutOfRange (2 ^ 64 - 1))"
    by (simp add: deduceResult_empty)
qed

theorem predictOnly_on_empty_history_witness:
  "get_number_of_measurements fresh_controller = 0 \<and>
   get_last_point fresh_controller = Inl (OutOfRange (2 ^ 64 - 1)) \<and>
   deduceResult flat_fit 1000 fresh_controller = Inl (OutOfRange (2 ^ 64 - 1))"
proof -
  have "get_number_of_measurements fresh_controller = 0"
    by (simp add: fresh_controller_eq get_number_of_measurements_def cb_size_def)
  then show ?thesis
    using predictOnly_on_empty_history [of fresh_controller 0 flat_fit 1000 0 0 0 example_profile]
    by simp
qed

subsection \<open>The contents of the history\<close>

















subsection \<open>The control step\<close>

lemma eager_controller_eq:
  "eager_controller =
     \<lparr>circular_buffer_parameters = \<lparr>cb_capacity = 200, cb_items = []\<rparr>,
      timer = 0, control_signal = 0, control_gain = 1, last_timestamp = 0,
      filtered_signal = 0, mixing_parameter = 0, min_nb_element_for_inference = 1\<rparr>"
  by (simp add: eager_controller_def GuideLinearRegression_def
      lr_guide_parameters_new_def circular_buffer_new_def GetDouble_def GetInt_def
      SetControlGain_def SetNbElementForInference_def reset_def clear_def cb_clear_def Let_def)

lemma first_step_is_proportional:
  assumes "cb_capacity (circular_buffer_parameters p) = 200"
    and "get_number_of_measurements p = 0"
  shows "\<exists>p'. result w now exposure input p = Inr (control_gain p * input, p')"
proof -
  have "get_number_of_measurements (add_one_point p) = 1"
    using assms by (simp add: add_one_point_size)
  then have "\<not> lr_allowed (add_one_point p)"
    by (simp add: lr_allowed_def)
  from result_inactive [OF assms(1) this] show ?thesis by blast
qed

text \<open>
  Claim C1, evaluated on the scenario of the spec: gain 0.8, threshold 3, four control
  steps with measurement 1 and an exposure of 1000 ms. The first three steps succeed (the
  estimator is not allowed, and each returns gain times measurement, see
  \<open>result_inactive\<close>). On the fourth the estimator is allowed, and the step ends in the
  out-of-range access of its transfer loop instead of returning the sum of the
  proportional and the predictive term.
\<close>

theorem four_steps_of_the_scenario:
  "\<not> isl (do_calls flat_fit [Step 1000 1000 1, Step 2000 1000 1, Step 3000 1000 1]
             fresh_controller) \<and>
   do_calls flat_fit [Step 1000 1000 1, Step 2000 1000 1, Step 3000 1000 1, Step 4000 1000 1]
     fresh_controller = Inl (OutOfRange (2 ^ 64 - 1))"
  by (simp add: fresh_controller_eq step_defs lr_prediction_def transfer_data.simps)

text \<open>
  Claim C5, evaluated with gain 1 and threshold 1. The first control step succeeds. The
  second is the first one on which the estimator is allowed: whatever the fit \<open>w\<close>
  computes, the step ends in the out-of-range access of the transfer loop, before the fit
  is reached.
\<close>

theorem fit_not_reached:
  "\<not> isl (result w 1000 1000 1 eager_controller) \<and>
   do_calls w [Step 1000 1000 1, Step 2000 1000 1] eager_controller
     = Inl (OutOfRange (2 ^ 64 - 1))"
  by (simp add: eager_controller_eq step_defs lr_prediction_def transfer_data.simps)

subsection \<open>The reconstructed measurement\<close>

text \<open>
  Claim C2, evaluated on the first two control steps of a controller with gain 0.8 and
  threshold 3 (measurements 1 and 2). \<^verbatim>\<open>result\<close> does not call
  \<^verbatim>\<open>HandleModifiedMeasurements\<close>: after the first step the only point has measurement 1
  and modified measurement 0, not 1, and after the second step both points have modified
  measurement 0. Had \<^verbatim>\<open>HandleModifiedMeasurements\<close> been called with the first measurement,
  it would have stored it.
\<close>

theorem modified_measurement_not_written:
  "result flat_fit 5000 1000 1 fresh_controller = Inr (4 / 5, after_first_step) \<and>
   map measurement (cb_items (circular_buffer_parameters after_first_step)) = [1] \<and>
   map modified_measurement (cb_items (circular_buffer_parameters after_first_step)) = [0] \<and>
   (case result flat_fit 6000 1000 2 after_first_step of
      Inl e \<Rightarrow> False
    | Inr (c, p) \<Rightarrow>
        map modified_measurement (cb_items (circular_buffer_parameters p)) = [0, 0]) \<and>
   (case HandleModifiedMeasurements 1 after_first_step of
      Inl e \<Rightarrow> False
    | Inr p \<Rightarrow>
        map modified_measurement (cb_items (circular_buffer_parameters p)) = [1])"
  by (simp add: fresh_controller_eq after_first_step_def HandleModifiedMeasurements_def
      step_defs)

subsection \<open>Time stamps and the reset\<close>

text \<open>
  Claim C4, evaluated on the first control step after a reset, at wall-clock time 7000,
  of a controller constructed at time 0 whose last time stamp is 5000. When
  \<^verbatim>\<open>HandleTimestamps\<close> runs, the history already holds the new point, so the stop watch is
  not restarted: it still counts from time 0, the last time stamp becomes 7000 and the
  point gets the time stamp \<open>(7000 - (7000 - 5000) / 2) / 1000 = 6\<close>. Called on the empty
  history itself, \<^verbatim>\<open>HandleTimestamps\<close> fails: it writes through \<^verbatim>\<open>get_last_point()\<close>.
\<close>

theorem stop_watch_not_restarted:
  "get_number_of_measurements (reset after_first_step) = 0 \<and>
   HandleTimestamps 7000 (reset after_first_step) = Inl (OutOfRange (2 ^ 64 - 1)) \<and>
   result flat_fit 7000 1000 1 (reset after_first_step) =
     Inr (4 / 5,
          \<lparr>circular_buffer_parameters =
             \<lparr>cb_capacity = 200,
              cb_items =
                [\<lparr>timestamp = 6, measurement = 1, modified_measurement = 0,
                  control = 4 / 5\<rparr>]\<rparr>,
           timer = 0,
           control_signal = 4 / 5,
           control_gain = 4 / 5,
           last_timestamp = 7000,
           filtered_signal = 0,
           mixing_parameter = 0,
           min_nb_element_for_inference = 3\<rparr>)"
  by (simp add: after_first_step_def reset_def clear_def cb_clear_def step_defs)

text \<open>
  Claim C3, as stated, fails: after a control step at wall-clock time 5000 and a reset,
  the last time stamp is still 5000, whereas it is 0 in a controller that was just
  constructed; and the control step at time 6000 gives different results on the two.
\<close>

theorem reset_leaves_timing_counterexample:
  "result flat_fit 5000 1000 1 fresh_controller = Inr (4 / 5, after_first_step) \<and>
   last_timestamp (reset after_first_step) = 5000 \<and>
   last_timestamp fresh_controller = 0 \<and>
   result flat_fit 6000 1000 1 (reset after_first_step)
     \<noteq> result flat_fit 6000 1000 1 fresh_controller"
  by (simp add: fresh_controller_eq after_first_step_def reset_def clear_def cb_clear_def
      step_defs)

text \<open>
  Claim C3, amended. \<^verbatim>\<open>reset\<close> empties the history and changes nothing else: the gain,
  the threshold, the last time stamp and the stop watch keep their values. The control
  step that follows a reset returns gain times measurement, and so does the first control
  step of a controller that was just constructed with the same gain.
\<close>

theorem reset_clears_history_only:
  assumes "cb_capacity (circular_buffer_parameters p) = 200"
  shows "get_number_of_measurements (reset p) = 0 \<and>
         reset p = p\<lparr>circular_buffer_parameters :=
                       (circular_buffer_parameters p)\<lparr>cb_items := []\<rparr>\<rparr> \<and>
         control_gain (reset p) = control_gain p \<and>
         min_nb_element_for_inference (reset p) = min_nb_element_for_inference p \<and>
         last_timestamp (reset p) = last_timestamp p \<and>
         timer (reset p) = timer p \<and>
         (\<exists>p1. result w now exposure input (reset p) = Inr (control_gain p * input, p1)) \<and>
         (control_gain (fst (GuideLinearRegression t g m cfg)) = control_gain p \<longrightarrow>
            (\<exists>p2. result w now exposure input (fst (GuideLinearRegression t g m cfg))
                    = Inr (control_gain p * input, p2)))"
proof -
  have r: "reset p = p\<lparr>circular_buffer_parameters :=
                       (circular_buffer_parameters p)\<lparr>cb_items := []\<rparr>\<rparr>"
    by (simp add: reset_def clear_def cb_clear_def)
  have e: "get_number_of_measurements (reset p) = 0"
    by (simp add: r get_number_of_measurements_def cb_size_def)
  have c: "cb_capacity (circular_buffer_parameters (reset p)) = 200"
    using assms by (simp add: r)
  have 1: "\<exists>p1. result w now exposure input (reset p) = Inr (control_gain p * input, p1)"
    using first_step_is_proportional [OF c e, of w now exposure input] by (simp add: r)
  let ?f = "fst (GuideLinearRegression t g m cfg)"
  have fc: "cb_capacity (circular_buffer_parameters ?f) = 200"
    by (simp add: GuideLinearRegression_def Let_def split_beta reset_def clear_def cb_clear_def
        SetControlGain_def SetNbElementForInference_def lr_guide_parameters_new_def
        circular_buffer_new_def)
  have fe: "get_number_of_measurements ?f = 0"
    by (simp add: GuideLinearRegression_def Let_def split_beta reset_def clear_def cb_clear_def
        get_number_of_measurements_def cb_size_def)
  have 2: "control_gain ?f = control_gain p \<longrightarrow>
      (\<exists>p2. result w now exposure input ?f = Inr (control_gain p * input, p2))"
    using first_step_is_proportional [OF fc fe, of w now exposure input] by auto
  from r e 1 2 show ?thesis by simp
qed

theorem reset_clears_history_only_witness:
  "cb_capacity (circular_buffer_parameters after_first_step) = 200 \<and>
   get_number_of_measurements (reset after_first_step) = 0 \<and>
   last_timestamp (reset after_first_step) = last_timestamp after_first_step \<and>
   control_gain fresh_controller = control_gain after_first_step \<and>
   (\<exists>p1. result flat_fit 6000 1000 1 (reset after_first_step)
            = Inr (control_gain after_first_step * 1, p1)) \<and>
   (\<exists>p2. result flat_fit 6000 1000 1 fresh_controller
            = Inr (control_gain after_first_step * 1, p2))"
proof -
  have a: "cb_capacity (circular_buffer_parameters after_first_step) = 200"
    by (simp add: after_first_step_def)
  have b: "control_gain fresh_controller = control_gain after_first_step"
    by (simp add: fresh_controller_eq after_first_step_def)
  note t = reset_clears_history_only [OF a, where w = flat_fit and now = 6000
      and exposure = 1000 and input = 1 and t = 0 and g = 0 and m = 0
      and cfg = example_profile, folded fresh_controller_def]
  from t a b show ?thesis
    by blast
qed

subsection \<open>The prediction step\<close>

text \<open>
  Claim C7, evaluated after one control step with gain 0.8, threshold 3 and measurement
  1. The estimator is not allowed, and \<^verbatim>\<open>deduceResult\<close> returns 0.8, the control signal
  that the control step has left in the parameters, not 0. It leaves the parameters as
  they are.
\<close>

theorem predictOnly_returns_last_control:
  "\<not> lr_allowed after_first_step \<and>
   deduceResult flat_fit 1000 after_first_step = Inr (4 / 5, after_first_step)"
  by (simp add: after_first_step_def deduceResult_def step_defs)

end
